theory Spec2Isabelle
  imports Main
begin

section \<open>Python strings and \<open>str.isdigit\<close>\<close>

text \<open>
  A Python \<open>str\<close> is a sequence of Unicode code points and \<open>len\<close> counts code points,
  so a key is modelled as a list of code points. ASCII literals of the source are
  written with \<open>ascii\<close>.
\<close>

type_synonym pystr = "nat list"

definition ascii :: "string \<Rightarrow> pystr" where
  "ascii s = map of_char s"

text \<open>
  \<open>str.isdigit\<close> is true of a character whose Unicode Numeric_Type is Digit or Decimal.
  The table is the one of Unicode 14.0 (CPython 3.11), as inclusive ranges of code points:
  the ASCII digits come first, then the superscripts two, three and one, then the
  Arabic-Indic digits, and so on.
\<close>

definition rangos_digitos :: "(nat \<times> nat) list" where
  "rangos_digitos =
    [(48, 57), (178, 179), (185, 185), (1632, 1641), (1776, 1785), (1984, 1993),
     (2406, 2415), (2534, 2543), (2662, 2671), (2790, 2799), (2918, 2927), (3046, 3055),
     (3174, 3183), (3302, 3311), (3430, 3439), (3558, 3567), (3664, 3673), (3792, 3801),
     (3872, 3881), (4160, 4169), (4240, 4249), (4969, 4977), (6112, 6121), (6160, 6169),
     (6470, 6479), (6608, 6618), (6784, 6793), (6800, 6809), (6992, 7001), (7088, 7097),
     (7232, 7241), (7248, 7257), (8304, 8304), (8308, 8313), (8320, 8329), (9312, 9320),
     (9332, 9340), (9352, 9360), (9450, 9450), (9461, 9469), (9471, 9471), (10102, 10110),
     (10112, 10120), (10122, 10130), (42528, 42537), (43216, 43225), (43264, 43273),
     (43472, 43481), (43504, 43513), (43600, 43609), (44016, 44025), (65296, 65305),
     (66720, 66729), (68160, 68163), (68912, 68921), (69216, 69224), (69714, 69722),
     (69734, 69743), (69872, 69881), (69942, 69951), (70096, 70105), (70384, 70393),
     (70736, 70745), (70864, 70873), (71248, 71257), (71360, 71369), (71472, 71481),
     (71904, 71913), (72016, 72025), (72784, 72793), (73040, 73049), (73120, 73129),
     (92768, 92777), (92864, 92873), (93008, 93017), (120782, 120831), (123200, 123209),
     (123632, 123641), (125264, 125273), (127232, 127242), (130032, 130041)]"

definition en_rango :: "nat \<Rightarrow> nat \<times> nat \<Rightarrow> bool" where
  "en_rango c r = (fst r \<le> c \<and> c \<le> snd r)"

definition isdigit_char :: "nat \<Rightarrow> bool" where
  "isdigit_char c = list_ex (en_rango c) rangos_digitos"

text \<open>\<open>s.isdigit()\<close>: every character is a digit and there is at least one character.\<close>

definition isdigit :: "pystr \<Rightarrow> bool" where
  "isdigit s = (s \<noteq> [] \<and> list_all isdigit_char s)"

text \<open>The ten ASCII decimal digits, \<open>0\<close> to \<open>9\<close>.\<close>

definition ascii_digit :: "nat \<Rightarrow> bool" where
  "ascii_digit c = (48 \<le> c \<and> c \<le> 57)"

text \<open>
  The format test both endpoints apply. The source rejects on
  \<open>not dni.isdigit() or len(dni) != 8\<close>; \<open>dni_invalido\<close> is that condition.
\<close>

definition dni_invalido :: "pystr \<Rightarrow> bool" where
  "dni_invalido dni = (\<not> isdigit dni \<or> length dni \<noteq> 8)"

section \<open>Configuration, requests and replies\<close>

text \<open>
  The two environment variables, read once when the module is loaded. An unset variable
  is the empty string, which Python treats as false.
\<close>

record config =
  SEEKER_TOKEN :: pystr
  API_KEY :: pystr

definition API_URL :: pystr where
  "API_URL = ascii ''https://seeker.red/personas/apiBasico/dni''"

definition TIMEOUT :: nat where
  "TIMEOUT = 15"

text \<open>What \<open>client.post\<close> is given: the URL, the two headers, the form field and the timeout.\<close>

record peticion =
  url :: pystr
  authorization :: pystr
  content_type :: pystr
  dni_enviado :: pystr
  timeout :: nat

definition armar_peticion :: "config \<Rightarrow> pystr \<Rightarrow> peticion" where
  "armar_peticion cfg dni =
     \<lparr>url = API_URL,
      authorization = ascii ''Bearer '' @ SEEKER_TOKEN cfg,
      content_type = ascii ''application/x-www-form-urlencoded'',
      dni_enviado = dni,
      timeout = TIMEOUT\<rparr>"

text \<open>
  What the three lines \<open>client.post\<close>, \<open>raise_for_status\<close>, \<open>response.json\<close> come to:
  the decoded document, or an exception. \<open>HTTPStatusError\<close> carries the status code, the
  body text and \<open>str(e)\<close>; the other two carry \<open>str(e)\<close>. \<open>OtraExcepcion\<close> is any other
  subclass of \<open>Exception\<close>, such as the \<open>ValueError\<close> of a body that is not JSON.
  The payload type \<open>'j\<close> is left open.
\<close>

datatype 'j respuesta =
    Json 'j
  | HTTPStatusError nat pystr pystr
  | RequestError pystr
  | OtraExcepcion pystr

text \<open>The upstream client is a parameter: it answers each request.\<close>

type_synonym 'j cliente = "peticion \<Rightarrow> 'j respuesta"

text \<open>
  The \<open>detail\<close> of the \<open>HTTPException\<close>s of the source. Its fixed texts are constructors;
  the three that interpolate a value keep the value.
\<close>

datatype detalle_http =
    ApiKeyInvalida
  | DniOchoDigitos
  | TokenNoConfigurado
  | ErrorSeeker pystr
  | ErrorConexion pystr
  | MaximoVeinte
  | DnisInvalidos "pystr list"

datatype error =
    HTTPException nat detalle_http
  | NoCapturada pystr

section \<open>The optional API key\<close>

text \<open>\<open>verificar_api_key\<close>: the header is checked only when \<open>API_KEY\<close> is set.\<close>

definition verificar_api_key :: "config \<Rightarrow> pystr option \<Rightarrow> error + unit" where
  "verificar_api_key cfg x_api_key =
     (if API_KEY cfg \<noteq> [] \<and> x_api_key \<noteq> Some (API_KEY cfg)
      then Inl (HTTPException 401 ApiKeyInvalida)
      else Inr ())"

section \<open>The single lookup\<close>

text \<open>
  Every handler returns its outcome together with the requests it gave to the client,
  in the order of the keys. In \<open>consultar_dni\<close> only the two \<open>httpx\<close> exceptions are
  caught; any other one leaves the handler.
\<close>

definition consultar_dni :: "config \<Rightarrow> 'j cliente \<Rightarrow> pystr \<Rightarrow> (error + 'j) \<times> peticion list" where
  "consultar_dni cfg client dni =
     (if dni_invalido dni then (Inl (HTTPException 400 DniOchoDigitos), [])
      else if SEEKER_TOKEN cfg = [] then (Inl (HTTPException 500 TokenNoConfigurado), [])
      else
        (case client (armar_peticion cfg dni) of
           Json j \<Rightarrow> Inr j
         | HTTPStatusError code body _ \<Rightarrow> Inl (HTTPException code (ErrorSeeker body))
         | RequestError msg \<Rightarrow> Inl (HTTPException 503 (ErrorConexion msg))
         | OtraExcepcion msg \<Rightarrow> Inl (NoCapturada msg),
         [armar_peticion cfg dni]))"

section \<open>The batch lookup\<close>

text \<open>
  One item of the answer: \<open>{"dni", "status": "ok", "data"}\<close> or
  \<open>{"dni", "status": "error", "detalle"}\<close>.
\<close>

datatype 'j resultado =
    ItemOk pystr 'j
  | ItemError pystr pystr

datatype estatus = ok | err

fun dni_de :: "'j resultado \<Rightarrow> pystr" where
  "dni_de (ItemOk d _) = d"
| "dni_de (ItemError d _) = d"

fun status_de :: "'j resultado \<Rightarrow> estatus" where
  "status_de (ItemOk _ _) = ok"
| "status_de (ItemError _ _) = err"

text \<open>The \<open>try\<close> of \<open>consultar_uno\<close>: \<open>except Exception\<close> catches all three exceptions.\<close>

fun resultado_de :: "pystr \<Rightarrow> 'j respuesta \<Rightarrow> 'j resultado" where
  "resultado_de dni (Json j) = ItemOk dni j"
| "resultado_de dni (HTTPStatusError _ _ msg) = ItemError dni msg"
| "resultado_de dni (RequestError msg) = ItemError dni msg"
| "resultado_de dni (OtraExcepcion msg) = ItemError dni msg"

definition consultar_uno :: "config \<Rightarrow> 'j cliente \<Rightarrow> pystr \<Rightarrow> 'j resultado" where
  "consultar_uno cfg client dni = resultado_de dni (client (armar_peticion cfg dni))"

record 'j lote =
  total :: nat
  resultados :: "'j resultado list"

text \<open>
  The batch handler. The client of a batch is told which task is asking, so that two
  tasks with the same key may be answered differently. \<open>asyncio.gather\<close> returns the
  results in the order of the coroutines it was given, which is the order of \<open>dnis\<close>.
\<close>

definition consultar_lote ::
  "config \<Rightarrow> (nat \<Rightarrow> 'j cliente) \<Rightarrow> pystr list \<Rightarrow> (error + 'j lote) \<times> peticion list" where
  "consultar_lote cfg client dnis =
     (if length dnis > 20 then (Inl (HTTPException 400 MaximoVeinte), [])
      else
        (let invalidos = filter dni_invalido dnis in
         if invalidos \<noteq> [] then (Inl (HTTPException 400 (DnisInvalidos invalidos)), [])
         else
           (let resultados = map (\<lambda>(i, dni). consultar_uno cfg (client i) dni) (enumerate 0 dnis)
            in (Inr \<lparr>total = length resultados, resultados = resultados\<rparr>,
                map (armar_peticion cfg) dnis))))"

section \<open>The two routes\<close>

text \<open>
  \<open>GET /dni/{dni}\<close> and \<open>POST /dni/lote\<close> both depend on \<open>verificar_api_key\<close>: the
  handler runs only when the check has passed.
\<close>

definition get_dni ::
  "config \<Rightarrow> 'j cliente \<Rightarrow> pystr option \<Rightarrow> pystr \<Rightarrow> (error + 'j) \<times> peticion list" where
  "get_dni cfg client x_api_key dni =
     (case verificar_api_key cfg x_api_key of
        Inl e \<Rightarrow> (Inl e, [])
      | Inr _ \<Rightarrow> consultar_dni cfg client dni)"

definition post_dni_lote ::
  "config \<Rightarrow> (nat \<Rightarrow> 'j cliente) \<Rightarrow> pystr option \<Rightarrow> pystr list \<Rightarrow> (error + 'j lote) \<times> peticion list" where
  "post_dni_lote cfg client x_api_key dnis =
     (case verificar_api_key cfg x_api_key of
        Inl e \<Rightarrow> (Inl e, [])
      | Inr _ \<Rightarrow> consultar_lote cfg client dnis)"

section \<open>The fan-out under the semaphore\<close>

text \<open>
  \<open>asyncio\<close> runs the tasks of a batch on one thread, switching between them only at an
  \<open>await\<close>. A task of \<open>consultar_uno\<close> waits for the semaphore, then holds one of its
  slots while its request is outstanding, then leaves the \<open>async with\<close> block with its
  item, giving the slot back whether the request raised or not.
\<close>

datatype 'j tarea =
    EnEspera
  | EnVuelo
  | Terminada "'j resultado"

record 'j despacho =
  semaforo :: nat
  tareas :: "'j tarea list"
  enviadas :: "peticion list"

text \<open>\<open>asyncio.Semaphore(5)\<close>, one per call of the handler; no task has started.\<close>

definition inicio :: "pystr list \<Rightarrow> 'j despacho" where
  "inicio dnis = \<lparr>semaforo = 5, tareas = replicate (length dnis) EnEspera, enviadas = []\<rparr>"

text \<open>
  The two things that can happen: task \<open>i\<close> takes a slot and posts its request, which
  needs a free slot; task \<open>i\<close> gets its reply, builds its item and frees the slot.
\<close>

datatype evento = Entrar nat | Salir nat

fun paso ::
  "config \<Rightarrow> (nat \<Rightarrow> 'j cliente) \<Rightarrow> pystr list \<Rightarrow> evento \<Rightarrow> 'j despacho \<Rightarrow> 'j despacho option" where
  "paso cfg client dnis (Entrar i) s =
     (if i < length (tareas s) \<and> 0 < semaforo s then
        (case tareas s ! i of
           EnEspera \<Rightarrow>
             Some (s\<lparr>semaforo := semaforo s - 1,
                     tareas := (tareas s)[i := EnVuelo],
                     enviadas := enviadas s @ [armar_peticion cfg (dnis ! i)]\<rparr>)
         | EnVuelo \<Rightarrow> None
         | Terminada _ \<Rightarrow> None)
      else None)"
| "paso cfg client dnis (Salir i) s =
     (if i < length (tareas s) then
        (case tareas s ! i of
           EnEspera \<Rightarrow> None
         | EnVuelo \<Rightarrow>
             Some (s\<lparr>semaforo := semaforo s + 1,
                     tareas := (tareas s)[i := Terminada (consultar_uno cfg (client i) (dnis ! i))]\<rparr>)
         | Terminada _ \<Rightarrow> None)
      else None)"

text \<open>A schedule is a list of events; it runs as long as each event can happen.\<close>

fun ejecutar ::
  "config \<Rightarrow> (nat \<Rightarrow> 'j cliente) \<Rightarrow> pystr list \<Rightarrow> evento list \<Rightarrow> 'j despacho \<Rightarrow> 'j despacho option" where
  "ejecutar cfg client dnis [] s = Some s"
| "ejecutar cfg client dnis (e # es) s =
     (case paso cfg client dnis e s of
        None \<Rightarrow> None
      | Some s' \<Rightarrow> ejecutar cfg client dnis es s')"

text \<open>The number of tasks that hold a slot.\<close>

fun es_en_vuelo :: "'j tarea \<Rightarrow> bool" where
  "es_en_vuelo EnVuelo = True"
| "es_en_vuelo EnEspera = False"
| "es_en_vuelo (Terminada _) = False"

definition en_vuelo :: "'j despacho \<Rightarrow> nat" where
  "en_vuelo s = length (filter es_en_vuelo (tareas s))"

text \<open>\<open>gather\<close> returns once every task has its item: the items, in the order of the tasks.\<close>

fun recoger :: "'j tarea list \<Rightarrow> 'j resultado list option" where
  "recoger [] = Some []"
| "recoger (Terminada r # ts) = map_option ((#) r) (recoger ts)"
| "recoger (EnEspera # ts) = None"
| "recoger (EnVuelo # ts) = None"

text \<open>The message of the exception a reply stands for, if it is one.\<close>

fun mensaje :: "'j respuesta \<Rightarrow> pystr option" where
  "mensaje (Json _) = None"
| "mensaje (HTTPStatusError _ _ msg) = Some msg"
| "mensaje (RequestError msg) = Some msg"
| "mensaje (OtraExcepcion msg) = Some msg"

text \<open>What is left to do: a waiting task has two steps before it, one in flight has one.\<close>

fun es_en_espera :: "'j tarea \<Rightarrow> bool" where
  "es_en_espera EnEspera = True"
| "es_en_espera EnVuelo = False"
| "es_en_espera (Terminada _) = False"

definition falta :: "'j despacho \<Rightarrow> nat" where
  "falta s = 2 * length (filter es_en_espera (tareas s)) + length (filter es_en_vuelo (tareas s))"

text \<open>Every finished task holds the item of its own key and its own reply.\<close>

definition hechas_bien :: "config \<Rightarrow> (nat \<Rightarrow> 'j cliente) \<Rightarrow> pystr list \<Rightarrow> 'j tarea list \<Rightarrow> bool" where
  "hechas_bien cfg client dnis ts =
     (length ts = length dnis \<and>
      (\<forall>i r. i < length ts \<and> ts ! i = Terminada r \<longrightarrow> r = consultar_uno cfg (client i) (dnis ! i)))"

section \<open>Example inputs\<close>

definition cfg_ej :: config where
  "cfg_ej = \<lparr>SEEKER_TOKEN = ascii ''t0k3n'', API_KEY = []\<rparr>"

definition sin_token :: config where
  "sin_token = \<lparr>SEEKER_TOKEN = [], API_KEY = []\<rparr>"

definition dnis_ej :: "pystr list" where
  "dnis_ej = [ascii ''12345678'', ascii ''87654321'']"

text \<open>The first task of a batch is answered with a document, every other one times out.\<close>

definition client_ej :: "nat \<Rightarrow> nat cliente" where
  "client_ej i p = (if i = 0 then Json 7 else RequestError (ascii ''timed out''))"

definition seis_dnis :: "pystr list" where
  "seis_dnis = [ascii ''10000001'', ascii ''10000002'', ascii ''10000003'',
                ascii ''10000004'', ascii ''10000005'', ascii ''10000006'']"

definition con_invalidos :: "pystr list" where
  "con_invalidos = [ascii ''12345678'', ascii ''1234567a'', ascii ''123'']"

section \<open>The validator\<close>

lemma isdigit_char_ascii: "c < 128 \<Longrightarrow> isdigit_char c = ascii_digit c"
  by (auto simp: isdigit_char_def rangos_digitos_def en_rango_def ascii_digit_def)

lemma ascii_digit_menor: "ascii_digit c \<Longrightarrow> c < 128"
  by (simp add: ascii_digit_def)

lemma list_all_ascii:
  "list_all (\<lambda>c. c < 128) s \<Longrightarrow> list_all isdigit_char s = list_all ascii_digit s"
  by (induction s) (simp_all add: isdigit_char_ascii)

lemma dni_valido_iff: "\<not> dni_invalido s \<longleftrightarrow> length s = 8 \<and> list_all isdigit_char s"
  by (auto simp: dni_invalido_def isdigit_def)

lemma filter_invalidos_vacio:
  "filter dni_invalido dnis = [] \<longleftrightarrow> list_all (\<lambda>d. \<not> dni_invalido d) dnis"
  by (induction dnis) auto

lemma sin_api_key: "API_KEY cfg = [] \<Longrightarrow> verificar_api_key cfg h = Inr ()"
  by (simp add: verificar_api_key_def)

text \<open>The check of the key only ever adds a 401 that reaches no handler.\<close>

lemma get_dni_casos:
  "get_dni cfg client h dni = (Inl (HTTPException 401 ApiKeyInvalida), []) \<or>
   get_dni cfg client h dni = consultar_dni cfg client dni"
  by (simp add: get_dni_def verificar_api_key_def)

lemma post_dni_lote_casos:
  "post_dni_lote cfg client h dnis = (Inl (HTTPException 401 ApiKeyInvalida), []) \<or>
   post_dni_lote cfg client h dnis = consultar_lote cfg client dnis"
  by (simp add: post_dni_lote_def verificar_api_key_def)

lemmas validador_defs = dni_invalido_def isdigit_def isdigit_char_def rangos_digitos_def
  en_rango_def ascii_def

section \<open>The items of a batch\<close>

lemma dni_de_consultar_uno: "dni_de (consultar_uno cfg c dni) = dni"
  by (cases "c (armar_peticion cfg dni)") (simp_all add: consultar_uno_def)

lemma resultado_de_mensaje: "mensaje rp = Some m \<Longrightarrow> resultado_de d rp = ItemError d m"
  by (cases rp) simp_all

lemma status_ok_o_error: "status_de r = ok \<or> status_de r = err"
  by (cases r) simp_all

lemma nth_resultados:
  "i < length dnis \<Longrightarrow>
   map (\<lambda>(i, dni). consultar_uno cfg (client i) dni) (enumerate 0 dnis) ! i =
   consultar_uno cfg (client i) (dnis ! i)"
  by (simp add: nth_enumerate_eq)

lemma consultar_lote_aceptado:
  assumes "length dnis \<le> 20" and "list_all (\<lambda>d. \<not> dni_invalido d) dnis"
  shows "consultar_lote cfg client dnis =
           (Inr \<lparr>total = length dnis,
                 resultados = map (\<lambda>(i, dni). consultar_uno cfg (client i) dni) (enumerate 0 dnis)\<rparr>,
            map (armar_peticion cfg) dnis)"
  using assms by (simp add: consultar_lote_def Let_def filter_invalidos_vacio [symmetric])

section \<open>Invariants of the fan-out\<close>

lemma filter_update_count:
  "i < length xs \<Longrightarrow>
   length (filter P (xs[i := v])) + (if P (xs ! i) then 1 else 0) =
   length (filter P xs) + (if P v then 1 else 0)"
proof (induction xs arbitrary: i)
  case Nil
  then show ?case by simp
next
  case (Cons x xs)
  show ?case
  proof (cases i)
    case 0
    then show ?thesis by simp
  next
    case (Suc k)
    with Cons.prems have "k < length xs" by simp
    from Cons.IH [OF this] Suc show ?thesis by simp
  qed
qed

lemma paso_casos:
  assumes "paso cfg client dnis e s = Some s'"
  obtains (entrar) i where "e = Entrar i" "i < length (tareas s)" "0 < semaforo s"
      "tareas s ! i = EnEspera"
      "s' = s\<lparr>semaforo := semaforo s - 1, tareas := (tareas s)[i := EnVuelo],
               enviadas := enviadas s @ [armar_peticion cfg (dnis ! i)]\<rparr>"
  | (salir) i where "e = Salir i" "i < length (tareas s)" "tareas s ! i = EnVuelo"
      "s' = s\<lparr>semaforo := semaforo s + 1,
               tareas := (tareas s)[i := Terminada (consultar_uno cfg (client i) (dnis ! i))]\<rparr>"
  using assms by (cases e) (auto split: if_splits tarea.splits)

lemma ejecutar_Cons:
  assumes "ejecutar cfg client dnis (e # evs) s = Some s'"
  obtains t where "paso cfg client dnis e s = Some t" "ejecutar cfg client dnis evs t = Some s'"
  using assms by (auto split: option.splits)

text \<open>A slot is taken exactly while a task is in flight.\<close>

lemma paso_cuenta:
  assumes "paso cfg client dnis e s = Some s'"
  shows "en_vuelo s' + semaforo s' = en_vuelo s + semaforo s"
  using assms
proof (cases rule: paso_casos)
  case (entrar i)
  from filter_update_count [OF entrar(2), of es_en_vuelo EnVuelo] entrar(4)
  have "length (filter es_en_vuelo ((tareas s)[i := EnVuelo])) =
        length (filter es_en_vuelo (tareas s)) + 1"
    by simp
  with entrar(3,5) show ?thesis by (simp add: en_vuelo_def)
next
  case (salir i)
  let ?t = "Terminada (consultar_uno cfg (client i) (dnis ! i))"
  from filter_update_count [OF salir(2), of es_en_vuelo ?t] salir(3)
  have "length (filter es_en_vuelo ((tareas s)[i := ?t])) + 1 =
        length (filter es_en_vuelo (tareas s))"
    by simp
  with salir(4) show ?thesis by (simp add: en_vuelo_def)
qed

lemma ejecutar_cuenta:
  "ejecutar cfg client dnis evs s = Some s' \<Longrightarrow>
   en_vuelo s' + semaforo s' = en_vuelo s + semaforo s"
proof (induction evs arbitrary: s)
  case Nil
  then show ?case by simp
next
  case (Cons e evs)
  from Cons.prems obtain t
    where t: "paso cfg client dnis e s = Some t" and r: "ejecutar cfg client dnis evs t = Some s'"
    by (rule ejecutar_Cons)
  from Cons.IH [OF r] paso_cuenta [OF t] show ?case by simp
qed

lemma inicio_cuenta: "en_vuelo (inicio dnis) + semaforo (inicio dnis) = 5"
  by (simp add: inicio_def en_vuelo_def)

text \<open>One request has been posted for every task that is no longer waiting.\<close>

lemma paso_enviadas:
  assumes "paso cfg client dnis e s = Some s'"
  shows "length (enviadas s') + length (filter es_en_espera (tareas s')) =
         length (enviadas s) + length (filter es_en_espera (tareas s))"
  using assms
proof (cases rule: paso_casos)
  case (entrar i)
  from filter_update_count [OF entrar(2), of es_en_espera EnVuelo] entrar(4)
  have "length (filter es_en_espera ((tareas s)[i := EnVuelo])) + 1 =
        length (filter es_en_espera (tareas s))"
    by simp
  with entrar(5) show ?thesis by simp
next
  case (salir i)
  let ?t = "Terminada (consultar_uno cfg (client i) (dnis ! i))"
  from filter_update_count [OF salir(2), of es_en_espera ?t] salir(3)
  have "length (filter es_en_espera ((tareas s)[i := ?t])) =
        length (filter es_en_espera (tareas s))"
    by simp
  with salir(4) show ?thesis by simp
qed

lemma ejecutar_enviadas:
  "ejecutar cfg client dnis evs s = Some s' \<Longrightarrow>
   length (enviadas s') + length (filter es_en_espera (tareas s')) =
   length (enviadas s) + length (filter es_en_espera (tareas s))"
proof (induction evs arbitrary: s)
  case Nil
  then show ?case by simp
next
  case (Cons e evs)
  from Cons.prems obtain t
    where t: "paso cfg client dnis e s = Some t" and r: "ejecutar cfg client dnis evs t = Some s'"
    by (rule ejecutar_Cons)
  from Cons.IH [OF r] paso_enviadas [OF t] show ?case by simp
qed

lemma enviadas_acotadas:
  assumes "ejecutar cfg client dnis evs (inicio dnis) = Some s"
  shows "length (enviadas s) \<le> length dnis"
proof -
  from ejecutar_enviadas [OF assms]
  have "length (enviadas s) + length (filter es_en_espera (tareas s)) = length dnis"
    by (simp add: inicio_def)
  then show ?thesis by simp
qed

lemma recoger_sin_espera: "recoger ts = Some rs \<Longrightarrow> filter es_en_espera ts = []"
  by (induction ts arbitrary: rs rule: recoger.induct) auto

text \<open>A batch that has run to its end has posted one request per key.\<close>

lemma enviadas_al_final:
  assumes "ejecutar cfg client dnis evs (inicio dnis) = Some s" and "recoger (tareas s) = Some rs"
  shows "length (enviadas s) = length dnis"
proof -
  from ejecutar_enviadas [OF assms(1)]
  have "length (enviadas s) + length (filter es_en_espera (tareas s)) = length dnis"
    by (simp add: inicio_def)
  with recoger_sin_espera [OF assms(2)] show ?thesis by simp
qed

text \<open>Each task writes its own place only, and writes there the item of its own key.\<close>

lemma paso_hechas:
  assumes "paso cfg client dnis e s = Some s'" and "hechas_bien cfg client dnis (tareas s)"
  shows "hechas_bien cfg client dnis (tareas s')"
  using assms(1)
proof (cases rule: paso_casos)
  case (entrar i)
  then have s': "tareas s' = (tareas s)[i := EnVuelo]" by simp
  show ?thesis
    unfolding hechas_bien_def s'
  proof (intro conjI allI impI)
    show "length ((tareas s)[i := EnVuelo]) = length dnis"
      using assms(2) by (simp add: hechas_bien_def)
  next
    fix k r
    assume h: "k < length ((tareas s)[i := EnVuelo]) \<and> (tareas s)[i := EnVuelo] ! k = Terminada r"
    then have "k \<noteq> i" by auto
    with h have "k < length (tareas s) \<and> tareas s ! k = Terminada r" by simp
    with assms(2) show "r = consultar_uno cfg (client k) (dnis ! k)"
      unfolding hechas_bien_def by blast
  qed
next
  case (salir i)
  let ?r = "consultar_uno cfg (client i) (dnis ! i)"
  from salir have s': "tareas s' = (tareas s)[i := Terminada ?r]" by simp
  show ?thesis
    unfolding hechas_bien_def s'
  proof (intro conjI allI impI)
    show "length ((tareas s)[i := Terminada ?r]) = length dnis"
      using assms(2) by (simp add: hechas_bien_def)
  next
    fix k r
    assume h: "k < length ((tareas s)[i := Terminada ?r]) \<and>
               (tareas s)[i := Terminada ?r] ! k = Terminada r"
    show "r = consultar_uno cfg (client k) (dnis ! k)"
    proof (cases "k = i")
      case True
      with h show ?thesis by auto
    next
      case False
      with h have "k < length (tareas s) \<and> tareas s ! k = Terminada r" by simp
      with assms(2) show ?thesis unfolding hechas_bien_def by blast
    qed
  qed
qed

lemma ejecutar_hechas:
  "ejecutar cfg client dnis evs s = Some s' \<Longrightarrow> hechas_bien cfg client dnis (tareas s)
   \<Longrightarrow> hechas_bien cfg client dnis (tareas s')"
proof (induction evs arbitrary: s)
  case Nil
  then show ?case by simp
next
  case (Cons e evs)
  from Cons.prems(1) obtain t
    where t: "paso cfg client dnis e s = Some t" and r: "ejecutar cfg client dnis evs t = Some s'"
    by (rule ejecutar_Cons)
  from paso_hechas [OF t Cons.prems(2)] Cons.IH [OF r] show ?case by simp
qed

lemma inicio_hechas: "hechas_bien cfg client dnis (tareas (inicio dnis))"
  by (auto simp: hechas_bien_def inicio_def)

lemma recoger_nth:
  "recoger ts = Some rs \<Longrightarrow>
   length rs = length ts \<and> (\<forall>i<length ts. ts ! i = Terminada (rs ! i))"
proof (induction ts arbitrary: rs rule: recoger.induct)
  case 1
  then show ?case by simp
next
  case (2 r ts)
  then obtain rs' where rs': "recoger ts = Some rs'" and rs: "rs = r # rs'"
    by auto
  from 2(1) [OF rs'] rs show ?case by (auto simp: nth_Cons split: nat.splits)
next
  case (3 ts)
  then show ?case by simp
next
  case (4 ts)
  then show ?case by simp
qed

text \<open>Whatever the order of the events, what \<open>gather\<close> collects is the list in key order.\<close>

lemma recoger_en_orden:
  assumes "ejecutar cfg client dnis evs (inicio dnis) = Some s" and "recoger (tareas s) = Some rs"
  shows "rs = map (\<lambda>(i, dni). consultar_uno cfg (client i) dni) (enumerate 0 dnis)"
proof (rule nth_equalityI)
  from ejecutar_hechas [OF assms(1) inicio_hechas]
  have hb: "hechas_bien cfg client dnis (tareas s)" .
  from recoger_nth [OF assms(2)]
  have len: "length rs = length (tareas s)"
    and nth: "\<forall>i<length (tareas s). tareas s ! i = Terminada (rs ! i)"
    by simp_all
  from hb have len': "length (tareas s) = length dnis" by (simp add: hechas_bien_def)
  show "length rs = length (map (\<lambda>(i, dni). consultar_uno cfg (client i) dni) (enumerate 0 dnis))"
    using len len' by simp
  fix i assume "i < length rs"
  with len have i: "i < length (tareas s)" by simp
  with nth have "tareas s ! i = Terminada (rs ! i)" by simp
  with hb i have "rs ! i = consultar_uno cfg (client i) (dnis ! i)"
    unfolding hechas_bien_def by blast
  moreover from i len' have "i < length dnis" by simp
  ultimately show "rs ! i = map (\<lambda>(i, dni). consultar_uno cfg (client i) dni) (enumerate 0 dnis) ! i"
    by (simp only: nth_resultados)
qed

section \<open>No deadlock\<close>

lemma paso_falta:
  assumes "paso cfg client dnis e s = Some s'"
  shows "falta s' < falta s"
  using assms
proof (cases rule: paso_casos)
  case (entrar i)
  from filter_update_count [OF entrar(2), of es_en_vuelo EnVuelo]
       filter_update_count [OF entrar(2), of es_en_espera EnVuelo] entrar(4)
  have "length (filter es_en_vuelo ((tareas s)[i := EnVuelo])) =
        length (filter es_en_vuelo (tareas s)) + 1"
    and "length (filter es_en_espera ((tareas s)[i := EnVuelo])) + 1 =
         length (filter es_en_espera (tareas s))"
    by simp_all
  with entrar(5) show ?thesis by (simp add: falta_def)
next
  case (salir i)
  let ?t = "Terminada (consultar_uno cfg (client i) (dnis ! i))"
  from filter_update_count [OF salir(2), of es_en_vuelo ?t]
       filter_update_count [OF salir(2), of es_en_espera ?t] salir(3)
  have "length (filter es_en_vuelo ((tareas s)[i := ?t])) + 1 =
        length (filter es_en_vuelo (tareas s))"
    and "length (filter es_en_espera ((tareas s)[i := ?t])) =
         length (filter es_en_espera (tareas s))"
    by simp_all
  with salir(4) show ?thesis by (simp add: falta_def)
qed

lemma recoger_None:
  "recoger ts = None \<Longrightarrow> \<exists>i<length ts. ts ! i = EnEspera \<or> ts ! i = EnVuelo"
proof (induction ts rule: recoger.induct)
  case 1
  then show ?case by simp
next
  case (2 r ts)
  then obtain i where "i < length ts" "ts ! i = EnEspera \<or> ts ! i = EnVuelo" by auto
  then have "Suc i < length (Terminada r # ts) \<and>
     ((Terminada r # ts) ! Suc i = EnEspera \<or> (Terminada r # ts) ! Suc i = EnVuelo)" by simp
  then show ?case by blast
next
  case (3 ts)
  have "0 < length (EnEspera # ts) \<and> (EnEspera # ts) ! 0 = EnEspera" by simp
  then show ?case by blast
next
  case (4 ts)
  have "0 < length (EnVuelo # ts) \<and> (EnVuelo # ts) ! 0 = EnVuelo" by simp
  then show ?case by blast
qed

lemma sin_vuelo:
  assumes "\<forall>i<length ts. ts ! i \<noteq> EnVuelo"
  shows "filter es_en_vuelo ts = []"
proof -
  have "\<not> es_en_vuelo x" if "x \<in> set ts" for x
  proof -
    from that obtain i where "i < length ts" "ts ! i = x" by (auto simp: in_set_conv_nth)
    with assms have "x \<noteq> EnVuelo" by auto
    then show ?thesis by (cases x) simp_all
  qed
  then show ?thesis by (simp add: filter_empty_conv)
qed

text \<open>
  While a task is unfinished something can happen: a task in flight can finish, and when
  none is in flight all five slots are free and a waiting task can enter.
\<close>

lemma progreso:
  assumes inv: "en_vuelo s + semaforo s = 5" and inc: "recoger (tareas s) = None"
  shows "\<exists>e s'. paso cfg client dnis e s = Some s'"
proof (cases "\<exists>i<length (tareas s). tareas s ! i = EnVuelo")
  case True
  then obtain i where "i < length (tareas s)" "tareas s ! i = EnVuelo" by blast
  then have "paso cfg client dnis (Salir i) s \<noteq> None" by simp
  then show ?thesis by blast
next
  case False
  then have "filter es_en_vuelo (tareas s) = []" by (intro sin_vuelo) simp
  with inv have libre: "0 < semaforo s" by (simp add: en_vuelo_def)
  from recoger_None [OF inc] False obtain i where "i < length (tareas s)" "tareas s ! i = EnEspera"
    by blast
  with libre have "paso cfg client dnis (Entrar i) s \<noteq> None" by simp
  then show ?thesis by blast
qed

lemma llega_al_final:
  "en_vuelo s + semaforo s = 5 \<Longrightarrow>
   \<exists>evs s'. ejecutar cfg client dnis evs s = Some s' \<and> recoger (tareas s') \<noteq> None"
proof (induction "falta s" arbitrary: s rule: less_induct)
  case less
  show ?case
  proof (cases "recoger (tareas s)")
    case (Some rs)
    then have "ejecutar cfg client dnis [] s = Some s \<and> recoger (tareas s) \<noteq> None" by simp
    then show ?thesis by blast
  next
    case None
    from progreso [OF less.prems None] obtain e t where t: "paso cfg client dnis e s = Some t"
      by blast
    from paso_cuenta [OF t] less.prems have "en_vuelo t + semaforo t = 5" by simp
    from less.hyps [OF paso_falta [OF t] this]
    obtain evs s' where "ejecutar cfg client dnis evs t = Some s'" "recoger (tareas s') \<noteq> None"
      by blast
    with t have "ejecutar cfg client dnis (e # evs) s = Some s' \<and> recoger (tareas s') \<noteq> None"
      by simp
    then show ?thesis by blast
  qed
qed

text \<open>Some schedule runs the batch to its end, and it collects the list in key order.\<close>

lemma hay_ejecucion_completa:
  "\<exists>evs s. ejecutar cfg client dnis evs (inicio dnis) = Some s \<and>
     recoger (tareas s) =
       Some (map (\<lambda>(i, dni). consultar_uno cfg (client i) dni) (enumerate 0 dnis))"
proof -
  from llega_al_final [OF inicio_cuenta]
  obtain evs s rs where e: "ejecutar cfg client dnis evs (inicio dnis) = Some s"
    and r: "recoger (tareas s) = Some rs"
    by blast
  from recoger_en_orden [OF e r] e r show ?thesis by blast
qed

section \<open>Worked examples\<close>

lemma ejemplo_lote:
  "consultar_lote cfg_ej client_ej dnis_ej =
     (Inr \<lparr>total = 2,
           resultados = [ItemOk (ascii ''12345678'') 7,
                         ItemError (ascii ''87654321'') (ascii ''timed out'')]\<rparr>,
      [armar_peticion cfg_ej (ascii ''12345678''), armar_peticion cfg_ej (ascii ''87654321'')])"
  by (simp add: consultar_lote_def Let_def dnis_ej_def client_ej_def consultar_uno_def
      dni_invalido_def isdigit_def isdigit_char_def rangos_digitos_def en_rango_def ascii_def)

lemma ejemplo_segunda_termina_antes:
  "ejecutar cfg_ej client_ej dnis_ej [Entrar 0, Entrar 1, Salir 1, Salir 0] (inicio dnis_ej) =
     Some \<lparr>semaforo = 5,
           tareas = [Terminada (ItemOk (ascii ''12345678'') 7),
                     Terminada (ItemError (ascii ''87654321'') (ascii ''timed out''))],
           enviadas = [armar_peticion cfg_ej (ascii ''12345678''),
                       armar_peticion cfg_ej (ascii ''87654321'')]\<rparr>"
  by (simp add: inicio_def dnis_ej_def client_ej_def consultar_uno_def)

lemma dnis_ej_validos: "list_all (\<lambda>d. \<not> dni_invalido d) dnis_ej"
  by (simp add: dnis_ej_def dni_invalido_def isdigit_def isdigit_char_def rangos_digitos_def
      en_rango_def ascii_def)

section \<open>The batch answers in the order of its keys\<close>

text \<open>
  Claim C1. A batch that passes both checks (at most 20 keys, none of them invalid) is
  answered with exactly one item per key: \<open>total\<close> and the length of \<open>resultados\<close>
  are the number of keys, and the item at place \<open>i\<close> carries key \<open>i\<close> and is the outcome
  of the request of task \<open>i\<close>. The order in which the tasks finish plays no part: every
  schedule of the fan-out that runs to the end collects this same list, and such a
  schedule exists.
\<close>

theorem lote_en_orden_de_entrada:
  assumes "length dnis \<le> 20" and "list_all (\<lambda>d. \<not> dni_invalido d) dnis"
  shows "\<exists>r. fst (consultar_lote cfg client dnis) = Inr r
            \<and> total r = length dnis
            \<and> length (resultados r) = length dnis
            \<and> (\<forall>i<length dnis. dni_de (resultados r ! i) = dnis ! i
                   \<and> resultados r ! i = consultar_uno cfg (client i) (dnis ! i))
            \<and> (\<forall>evs s rs. ejecutar cfg client dnis evs (inicio dnis) = Some s
                   \<and> recoger (tareas s) = Some rs \<longrightarrow> rs = resultados r)
            \<and> (\<exists>evs s. ejecutar cfg client dnis evs (inicio dnis) = Some s
                   \<and> recoger (tareas s) = Some (resultados r))"
proof -
  let ?rs = "map (\<lambda>(i, dni). consultar_uno cfg (client i) dni) (enumerate 0 dnis)"
  let ?r = "\<lparr>total = length dnis, resultados = ?rs\<rparr>"
  have a: "fst (consultar_lote cfg client dnis) = Inr ?r"
    by (simp add: consultar_lote_aceptado [OF assms])
  have c: "\<forall>evs s rs. ejecutar cfg client dnis evs (inicio dnis) = Some s
             \<and> recoger (tareas s) = Some rs \<longrightarrow> rs = ?rs"
    using recoger_en_orden by blast
  have d: "\<exists>evs s. ejecutar cfg client dnis evs (inicio dnis) = Some s
             \<and> recoger (tareas s) = Some ?rs"
    by (rule hay_ejecucion_completa)
  show ?thesis
  proof (intro exI [of _ ?r] conjI)
    show "fst (consultar_lote cfg client dnis) = Inr ?r" by (rule a)
    show "total ?r = length dnis" by simp
    show "length (resultados ?r) = length dnis" by simp
    show "\<forall>i<length dnis. dni_de (resultados ?r ! i) = dnis ! i
             \<and> resultados ?r ! i = consultar_uno cfg (client i) (dnis ! i)"
      by (simp add: nth_enumerate_eq dni_de_consultar_uno)
    show "\<forall>evs s rs. ejecutar cfg client dnis evs (inicio dnis) = Some s
             \<and> recoger (tareas s) = Some rs \<longrightarrow> rs = resultados ?r"
      using c by simp
    show "\<exists>evs s. ejecutar cfg client dnis evs (inicio dnis) = Some s
             \<and> recoger (tareas s) = Some (resultados ?r)"
      using d by simp
  qed
qed

theorem lote_en_orden_de_entrada_witness:
  "length dnis_ej \<le> 20 \<and> list_all (\<lambda>d. \<not> dni_invalido d) dnis_ej \<and>
   (\<exists>r. fst (consultar_lote cfg_ej client_ej dnis_ej) = Inr r
      \<and> total r = 2
      \<and> map dni_de (resultados r) = dnis_ej
      \<and> map_option (\<lambda>s. recoger (tareas s))
           (ejecutar cfg_ej client_ej dnis_ej [Entrar 0, Entrar 1, Salir 1, Salir 0] (inicio dnis_ej))
         = Some (Some (resultados r)))"
proof -
  have h1: "length dnis_ej \<le> 20" by (simp add: dnis_ej_def)
  from lote_en_orden_de_entrada [OF h1 dnis_ej_validos, of cfg_ej client_ej]
  obtain r where r: "fst (consultar_lote cfg_ej client_ej dnis_ej) = Inr r"
    and t: "total r = length dnis_ej"
    and l: "length (resultados r) = length dnis_ej"
    and n: "\<forall>i<length dnis_ej. dni_de (resultados r ! i) = dnis_ej ! i"
    and o: "\<forall>evs s rs. ejecutar cfg_ej client_ej dnis_ej evs (inicio dnis_ej) = Some s
               \<and> recoger (tareas s) = Some rs \<longrightarrow> rs = resultados r"
    by blast
  have m: "map dni_de (resultados r) = dnis_ej"
    using l n by (intro nth_equalityI) simp_all
  obtain s rs where s: "ejecutar cfg_ej client_ej dnis_ej [Entrar 0, Entrar 1, Salir 1, Salir 0] (inicio dnis_ej) = Some s"
    and c: "recoger (tareas s) = Some rs"
    using ejemplo_segunda_termina_antes by simp
  from o s c have "rs = resultados r" by blast
  with c have "recoger (tareas s) = Some (resultados r)" by simp
  with s r t m h1 dnis_ej_validos show ?thesis by (auto simp: dnis_ej_def)
qed

section \<open>A failing item stays a failing item\<close>

text \<open>
  Claim C2. In a batch that passes both checks, the handler always returns the answer,
  never an error of its own, whatever the client does for each request. The item at
  place \<open>i\<close> depends on the reply to request \<open>i\<close> alone: an exception there (an
  \<open>HTTPStatusError\<close>, a \<open>RequestError\<close> or any other \<open>Exception\<close>) becomes the item
  \<open>status: error\<close> of key \<open>i\<close> with the exception's message, a decoded document becomes
  \<open>status: ok\<close>, and every item has one of the two statuses.
\<close>

theorem error_de_un_item_no_aborta:
  assumes "length dnis \<le> 20" and "list_all (\<lambda>d. \<not> dni_invalido d) dnis"
  shows "\<exists>r. fst (consultar_lote cfg client dnis) = Inr r
            \<and> total r = length dnis
            \<and> length (resultados r) = length dnis
            \<and> (\<forall>i<length dnis.
                  resultados r ! i = resultado_de (dnis ! i) (client i (armar_peticion cfg (dnis ! i)))
                \<and> (\<forall>m. mensaje (client i (armar_peticion cfg (dnis ! i))) = Some m
                       \<longrightarrow> resultados r ! i = ItemError (dnis ! i) m)
                \<and> (\<forall>j. client i (armar_peticion cfg (dnis ! i)) = Json j
                       \<longrightarrow> resultados r ! i = ItemOk (dnis ! i) j)
                \<and> (status_de (resultados r ! i) = ok \<or> status_de (resultados r ! i) = err))"
proof -
  let ?rs = "map (\<lambda>(i, dni). consultar_uno cfg (client i) dni) (enumerate 0 dnis)"
  let ?r = "\<lparr>total = length dnis, resultados = ?rs\<rparr>"
  have item: "?rs ! i = resultado_de (dnis ! i) (client i (armar_peticion cfg (dnis ! i)))"
    if "i < length dnis" for i
    using that by (simp add: nth_enumerate_eq consultar_uno_def)
  show ?thesis
  proof (intro exI [of _ ?r] conjI allI impI)
    show "fst (consultar_lote cfg client dnis) = Inr ?r"
      by (simp add: consultar_lote_aceptado [OF assms])
    show "total ?r = length dnis" by simp
    show "length (resultados ?r) = length dnis" by simp
  next
    fix i assume i: "i < length dnis"
    show "resultados ?r ! i = resultado_de (dnis ! i) (client i (armar_peticion cfg (dnis ! i)))"
      using item [OF i] by simp
    show "status_de (resultados ?r ! i) = ok \<or> status_de (resultados ?r ! i) = err"
      by (rule status_ok_o_error)
  next
    fix i m assume i: "i < length dnis"
      and m: "mensaje (client i (armar_peticion cfg (dnis ! i))) = Some m"
    show "resultados ?r ! i = ItemError (dnis ! i) m"
      using item [OF i] resultado_de_mensaje [OF m] by simp
  next
    fix i j assume i: "i < length dnis"
      and j: "client i (armar_peticion cfg (dnis ! i)) = Json j"
    show "resultados ?r ! i = ItemOk (dnis ! i) j"
      using item [OF i] j by simp
  qed
qed

theorem error_de_un_item_no_aborta_witness:
  "length dnis_ej \<le> 20 \<and> list_all (\<lambda>d. \<not> dni_invalido d) dnis_ej \<and>
   mensaje (client_ej 1 (armar_peticion cfg_ej (dnis_ej ! 1))) = Some (ascii ''timed out'') \<and>
   (\<exists>r. fst (consultar_lote cfg_ej client_ej dnis_ej) = Inr r
      \<and> total r = 2
      \<and> resultados r ! 0 = ItemOk (ascii ''12345678'') 7
      \<and> resultados r ! 1 = ItemError (ascii ''87654321'') (ascii ''timed out''))"
proof -
  have h1: "length dnis_ej \<le> 20" by (simp add: dnis_ej_def)
  have m: "mensaje (client_ej 1 (armar_peticion cfg_ej (dnis_ej ! 1))) = Some (ascii ''timed out'')"
    by (simp add: client_ej_def)
  have j: "client_ej 0 (armar_peticion cfg_ej (dnis_ej ! 0)) = Json 7"
    by (simp add: client_ej_def)
  from error_de_un_item_no_aborta [OF h1 dnis_ej_validos, of cfg_ej client_ej]
  obtain r where r: "fst (consultar_lote cfg_ej client_ej dnis_ej) = Inr r"
    and t: "total r = length dnis_ej"
    and n: "\<forall>i<length dnis_ej.
              (\<forall>m. mensaje (client_ej i (armar_peticion cfg_ej (dnis_ej ! i))) = Some m
                   \<longrightarrow> resultados r ! i = ItemError (dnis_ej ! i) m)
            \<and> (\<forall>j. client_ej i (armar_peticion cfg_ej (dnis_ej ! i)) = Json j
                   \<longrightarrow> resultados r ! i = ItemOk (dnis_ej ! i) j)"
    by blast
  have "(0::nat) < length dnis_ej" and "(1::nat) < length dnis_ej" by (simp_all add: dnis_ej_def)
  with n m j have "resultados r ! 0 = ItemOk (dnis_ej ! 0) 7"
    and "resultados r ! 1 = ItemError (dnis_ej ! 1) (ascii ''timed out'')"
    by blast+
  then have "resultados r ! 0 = ItemOk (ascii ''12345678'') 7"
    and "resultados r ! 1 = ItemError (ascii ''87654321'') (ascii ''timed out'')"
    by (simp_all add: dnis_ej_def)
  with r t h1 dnis_ej_validos m show ?thesis by (auto simp: dnis_ej_def)
qed

section \<open>At most five requests at a time\<close>

text \<open>
  With six keys, five tasks enter; the sixth cannot until one of them has finished.
\<close>

lemma ejemplo_cinco_en_vuelo:
  "ejecutar cfg_ej client_ej seis_dnis [Entrar 0, Entrar 1, Entrar 2, Entrar 3, Entrar 4]
     (inicio seis_dnis) =
   Some \<lparr>semaforo = 0,
         tareas = [EnVuelo, EnVuelo, EnVuelo, EnVuelo, EnVuelo, EnEspera],
         enviadas = map (armar_peticion cfg_ej) (take 5 seis_dnis)\<rparr>"
  by (simp add: inicio_def seis_dnis_def)

lemma ejemplo_la_sexta_espera:
  "ejecutar cfg_ej client_ej seis_dnis [Entrar 0, Entrar 1, Entrar 2, Entrar 3, Entrar 4, Entrar 5]
     (inicio seis_dnis) = None"
  by (simp add: inicio_def seis_dnis_def)

lemma ejemplo_la_sexta_entra_despues:
  "map_option en_vuelo
     (ejecutar cfg_ej client_ej seis_dnis
        [Entrar 0, Entrar 1, Entrar 2, Entrar 3, Entrar 4, Salir 2, Entrar 5] (inicio seis_dnis)) =
   Some 5"
  by (simp add: inicio_def seis_dnis_def en_vuelo_def)

text \<open>
  Claim C3. The budget of a batch is the constant 5 of \<open>asyncio.Semaphore(5)\<close>. In every
  state that any schedule of the fan-out can reach, at most 5 tasks hold a slot, which is
  where a task has its request outstanding; the free slots and the tasks in flight always
  add up to 5.
\<close>

theorem a_lo_mas_cinco_en_vuelo:
  assumes "ejecutar cfg client dnis evs (inicio dnis) = Some s"
  shows "en_vuelo s \<le> 5 \<and> en_vuelo s + semaforo s = 5"
proof -
  from ejecutar_cuenta [OF assms] inicio_cuenta [of dnis]
  have "en_vuelo s + semaforo s = 5" by simp
  then show ?thesis by simp
qed

theorem a_lo_mas_cinco_en_vuelo_witness:
  "\<exists>s. ejecutar cfg_ej client_ej seis_dnis [Entrar 0, Entrar 1, Entrar 2, Entrar 3, Entrar 4]
          (inicio seis_dnis) = Some s
      \<and> en_vuelo s = 5 \<and> en_vuelo s \<le> 5 \<and> semaforo s = 0"
proof -
  from ejemplo_cinco_en_vuelo obtain s
    where s: "ejecutar cfg_ej client_ej seis_dnis [Entrar 0, Entrar 1, Entrar 2, Entrar 3, Entrar 4]
                (inicio seis_dnis) = Some s"
      and z: "semaforo s = 0"
    by simp
  from a_lo_mas_cinco_en_vuelo [OF s] z have "en_vuelo s \<le> 5 \<and> en_vuelo s = 5" by simp
  with s z show ?thesis by blast
qed

section \<open>What the validator accepts\<close>

text \<open>
  Claim C4, as the code has it. A key is accepted exactly when it has 8 characters and
  each of them is a digit for \<open>str.isdigit\<close>, which holds of the digits of every script
  and not of the ASCII ones alone. Among the strings of ASCII characters the accepted ones
  are exactly those of 8 ASCII decimal digits, and every string of 8 ASCII decimal digits
  is accepted. \<open>1234567\<close>, \<open>123456789\<close> and \<open>1234567a\<close> are rejected, \<open>12345678\<close> is
  accepted.
\<close>

theorem validador_ocho_digitos:
  "(\<not> dni_invalido s \<longleftrightarrow> length s = 8 \<and> list_all isdigit_char s)
   \<and> (list_all (\<lambda>c. c < 128) s \<longrightarrow>
        (\<not> dni_invalido s \<longleftrightarrow> length s = 8 \<and> list_all ascii_digit s))
   \<and> (length s = 8 \<and> list_all ascii_digit s \<longrightarrow> \<not> dni_invalido s)
   \<and> dni_invalido (ascii ''1234567'')
   \<and> dni_invalido (ascii ''123456789'')
   \<and> dni_invalido (ascii ''1234567a'')
   \<and> \<not> dni_invalido (ascii ''12345678'')"
proof (intro conjI impI)
  show a: "\<not> dni_invalido s \<longleftrightarrow> length s = 8 \<and> list_all isdigit_char s"
    by (rule dni_valido_iff)
  show "\<not> dni_invalido s \<longleftrightarrow> length s = 8 \<and> list_all ascii_digit s"
    if "list_all (\<lambda>c. c < 128) s"
    using list_all_ascii [OF that] a by simp
  show "\<not> dni_invalido s" if h: "length s = 8 \<and> list_all ascii_digit s"
  proof -
    from h have "list_all (\<lambda>c. c < 128) s"
      by (auto simp: list_all_iff dest: ascii_digit_menor)
    from list_all_ascii [OF this] h a show ?thesis by simp
  qed
  show "dni_invalido (ascii ''1234567'')" by (simp add: validador_defs)
  show "dni_invalido (ascii ''123456789'')" by (simp add: validador_defs)
  show "dni_invalido (ascii ''1234567a'')" by (simp add: validador_defs)
  show "\<not> dni_invalido (ascii ''12345678'')" by (simp add: validador_defs)
qed

theorem validador_ocho_digitos_witness:
  "list_all (\<lambda>c. c < 128) (ascii ''12345678'')
   \<and> length (ascii ''12345678'') = 8 \<and> list_all ascii_digit (ascii ''12345678'')
   \<and> \<not> dni_invalido (ascii ''12345678'')
   \<and> list_all (\<lambda>c. c < 128) (ascii ''1234567a'')
   \<and> \<not> list_all ascii_digit (ascii ''1234567a'')
   \<and> dni_invalido (ascii ''1234567a'')"
proof -
  have h1: "list_all (\<lambda>c. c < 128) (ascii ''12345678'')" by (simp add: ascii_def)
  have h2: "length (ascii ''12345678'') = 8 \<and> list_all ascii_digit (ascii ''12345678'')"
    by (simp add: ascii_def ascii_digit_def)
  have h3: "list_all (\<lambda>c. c < 128) (ascii ''1234567a'')" by (simp add: ascii_def)
  have h4: "\<not> list_all ascii_digit (ascii ''1234567a'')" by (simp add: ascii_def ascii_digit_def)
  from validador_ocho_digitos [of "ascii ''12345678''"] h2
  have a: "\<not> dni_invalido (ascii ''12345678'')" by blast
  from validador_ocho_digitos [of "ascii ''1234567a''"] h3 h4
  have b: "dni_invalido (ascii ''1234567a'')" by blast
  from h1 h2 h3 h4 a b show ?thesis by blast
qed

text \<open>
  Acceptance is not the same as being 8 ASCII decimal digits: the key made of eight times
  ARABIC-INDIC DIGIT ONE (U+0661) is accepted.
\<close>

theorem ocho_digitos_arabes_counterexample:
  "\<not> dni_invalido [1633, 1633, 1633, 1633, 1633, 1633, 1633, 1633] \<and>
   \<not> (length [1633, 1633, 1633, 1633, 1633, 1633, 1633, 1633 :: nat] = 8 \<and>
      list_all ascii_digit [1633, 1633, 1633, 1633, 1633, 1633, 1633, 1633])"
  by (simp add: dni_invalido_def isdigit_def isdigit_char_def rangos_digitos_def en_rango_def
      ascii_digit_def)

section \<open>The checks of the batch handler\<close>

text \<open>
  Claim C5. A batch of at most 20 keys with an invalid key among them is rejected as a
  whole with status 400; the detail lists every invalid key of the batch, in the order of
  the batch, and no request is given to the client.
\<close>

theorem lote_con_invalidos_rechazado:
  assumes "length dnis \<le> 20" and "list_ex dni_invalido dnis"
  shows "consultar_lote cfg client dnis =
           (Inl (HTTPException 400 (DnisInvalidos (filter dni_invalido dnis))), [])
         \<and> set (filter dni_invalido dnis) = {d \<in> set dnis. dni_invalido d}
         \<and> filter dni_invalido dnis \<noteq> []"
proof -
  from assms(2) have ne: "filter dni_invalido dnis \<noteq> []"
    by (simp add: filter_empty_conv list_ex_iff)
  with assms(1) show ?thesis by (simp add: consultar_lote_def Let_def)
qed

theorem lote_con_invalidos_rechazado_witness:
  "length con_invalidos \<le> 20 \<and> list_ex dni_invalido con_invalidos \<and>
   consultar_lote cfg_ej client_ej con_invalidos =
     (Inl (HTTPException 400 (DnisInvalidos [ascii ''1234567a'', ascii ''123''])), [])"
proof -
  have h1: "length con_invalidos \<le> 20" by (simp add: con_invalidos_def)
  have h2: "list_ex dni_invalido con_invalidos"
    by (simp add: con_invalidos_def validador_defs)
  have f: "filter dni_invalido con_invalidos = [ascii ''1234567a'', ascii ''123'']"
    by (simp add: con_invalidos_def validador_defs)
  from lote_con_invalidos_rechazado [OF h1 h2, of cfg_ej client_ej] f h1 h2
  show ?thesis by simp
qed

text \<open>
  Claim C6. The batch handler does not look at the credential. With \<open>SEEKER_TOKEN\<close>
  unset, a batch of one good key is answered with \<open>total = 1\<close>: the request goes to the
  client with the header \<open>Bearer \<close> followed by nothing, and the item is whatever the
  client makes of it. The single lookup with the same key and configuration stops with
  status 500 before any request.
\<close>

theorem lote_sin_token_llama_al_proveedor:
  "consultar_lote sin_token client [ascii ''12345678''] =
     (Inr \<lparr>total = 1,
           resultados = [resultado_de (ascii ''12345678'')
                           (client 0 (armar_peticion sin_token (ascii ''12345678'')))]\<rparr>,
      [armar_peticion sin_token (ascii ''12345678'')])
   \<and> authorization (armar_peticion sin_token (ascii ''12345678'')) = ascii ''Bearer ''
   \<and> consultar_dni sin_token (client 0) (ascii ''12345678'') =
       (Inl (HTTPException 500 TokenNoConfigurado), [])"
proof (intro conjI)
  have v: "\<not> dni_invalido (ascii ''12345678'')" by (simp add: validador_defs)
  show "consultar_lote sin_token client [ascii ''12345678''] =
     (Inr \<lparr>total = 1,
           resultados = [resultado_de (ascii ''12345678'')
                           (client 0 (armar_peticion sin_token (ascii ''12345678'')))]\<rparr>,
      [armar_peticion sin_token (ascii ''12345678'')])"
    using v by (simp add: consultar_lote_def Let_def consultar_uno_def)
  show "authorization (armar_peticion sin_token (ascii ''12345678'')) = ascii ''Bearer ''"
    by (simp add: armar_peticion_def sin_token_def)
  show "consultar_dni sin_token (client 0) (ascii ''12345678'') =
       (Inl (HTTPException 500 TokenNoConfigurado), [])"
    using v by (simp add: consultar_dni_def sin_token_def)
qed

text \<open>
  Claim C7. A batch of more than 20 keys is rejected with status 400 and no request is
  given to the client, whatever the keys are.
\<close>

theorem lote_de_mas_de_veinte_rechazado:
  assumes "20 < length dnis"
  shows "consultar_lote cfg client dnis = (Inl (HTTPException 400 MaximoVeinte), [])"
  using assms by (simp add: consultar_lote_def)

theorem lote_de_mas_de_veinte_rechazado_witness:
  "20 < length (replicate 21 (ascii ''12345678'')) \<and>
   consultar_lote cfg_ej client_ej (replicate 21 (ascii ''12345678'')) =
     (Inl (HTTPException 400 MaximoVeinte), [])"
proof -
  have h: "20 < length (replicate 21 (ascii ''12345678''))" by simp
  from lote_de_mas_de_veinte_rechazado [OF h, of cfg_ej client_ej] h show ?thesis by blast
qed

section \<open>The single lookup without a credential\<close>

text \<open>
  Claim C8. A single lookup of a key that passes the format test, made while
  \<open>SEEKER_TOKEN\<close> is unset, stops with status 500 and no request is given to the client.
\<close>

theorem consulta_sin_token_es_500:
  assumes "\<not> dni_invalido dni" and "SEEKER_TOKEN cfg = []"
  shows "consultar_dni cfg client dni = (Inl (HTTPException 500 TokenNoConfigurado), [])"
  using assms by (simp add: consultar_dni_def)

theorem consulta_sin_token_es_500_witness:
  "\<not> dni_invalido (ascii ''12345678'') \<and> SEEKER_TOKEN sin_token = [] \<and>
   consultar_dni sin_token (client_ej 0) (ascii ''12345678'') =
     (Inl (HTTPException 500 TokenNoConfigurado), [])"
proof -
  have h1: "\<not> dni_invalido (ascii ''12345678'')" by (simp add: validador_defs)
  have h2: "SEEKER_TOKEN sin_token = []" by (simp add: sin_token_def)
  from consulta_sin_token_es_500 [OF h1 h2, of "client_ej 0"] h1 h2 show ?thesis by blast
qed

section \<open>The empty batch\<close>

lemma nada_que_hacer:
  "ejecutar cfg client dnis (e # evs) (inicio []) = None"
  by (cases e) (simp_all add: inicio_def)

text \<open>
  Claim C9. The empty batch is answered with \<open>total = 0\<close> and no items, and no request
  is given to the client: the fan-out has no task, so no event can happen in it.
\<close>

theorem lote_vacio:
  "consultar_lote cfg client [] = (Inr \<lparr>total = 0, resultados = []\<rparr>, [])
   \<and> (\<forall>evs s. ejecutar cfg client [] evs (inicio []) = Some s \<longrightarrow>
         evs = [] \<and> enviadas s = [] \<and> recoger (tareas s) = Some [])"
proof (intro conjI allI impI)
  show "consultar_lote cfg client [] = (Inr \<lparr>total = 0, resultados = []\<rparr>, [])"
    by (simp add: consultar_lote_def)
next
  fix evs and s :: "'a despacho"
  assume r: "ejecutar cfg client [] evs (inicio []) = Some s"
  show e: "evs = []"
  proof (rule ccontr)
    assume "evs \<noteq> []"
    then obtain e es where "evs = e # es" by (cases evs) auto
    with r have "ejecutar cfg client [] (e # es) (inicio []) = Some s" by (simp only:)
    then show False by (simp only: nada_que_hacer option.distinct)
  qed
  with r have "s = inicio []" by simp
  then show "enviadas s = []" and "recoger (tareas s) = Some []" by (simp_all add: inicio_def)
qed

theorem lote_vacio_witness:
  "consultar_lote cfg_ej client_ej [] = (Inr \<lparr>total = 0, resultados = []\<rparr>, [])
   \<and> ejecutar cfg_ej client_ej [] [] (inicio []) = Some (inicio [])
   \<and> enviadas (inicio [] :: nat despacho) = []"
proof -
  have r: "ejecutar cfg_ej client_ej [] [] (inicio []) = Some (inicio [])" by simp
  from lote_vacio [of cfg_ej client_ej] r show ?thesis by blast
qed

section \<open>The size of the batch is checked first\<close>

text \<open>
  Claim C10. A batch of more than 20 keys that also holds invalid keys is rejected with
  the detail of the size check, not with the list of the invalid keys.
\<close>

theorem tope_antes_que_formato:
  assumes "20 < length dnis" and "list_ex dni_invalido dnis"
  shows "fst (consultar_lote cfg client dnis) = Inl (HTTPException 400 MaximoVeinte)
         \<and> fst (consultar_lote cfg client dnis) \<noteq>
             Inl (HTTPException 400 (DnisInvalidos (filter dni_invalido dnis)))"
  using assms(1) by (simp add: consultar_lote_def)

theorem tope_antes_que_formato_witness:
  "20 < length (replicate 21 (ascii ''abc'')) \<and>
   list_ex dni_invalido (replicate 21 (ascii ''abc'')) \<and>
   fst (consultar_lote cfg_ej client_ej (replicate 21 (ascii ''abc''))) =
     Inl (HTTPException 400 MaximoVeinte)"
proof -
  have h1: "20 < length (replicate 21 (ascii ''abc''))" by simp
  have i: "dni_invalido (ascii ''abc'')" by (simp add: validador_defs)
  then have h2: "list_ex dni_invalido (replicate 21 (ascii ''abc''))"
    by (simp add: list_ex_iff)
  from tope_antes_que_formato [OF h1 h2, of cfg_ej client_ej] h1 h2 show ?thesis by blast
qed

end
